theory Spec2Isabelle
  imports Complex_Main
begin

section \<open>JavaScript values used by the analytics module\<close>

text \<open>
  The analytics module of the bowls tracker (the part of \<^verbatim>\<open>sw.js\<close> headed
  "Analytics Module for Bowls Performance Tracker") reads duck-typed records. A numeric
  field that the code tests against both \<^verbatim>\<open>undefined\<close> and \<^verbatim>\<open>null\<close> is a
  \<open>jsnum\<close>; a field that is only ever tested for presence or truthiness is an
  \<open>option\<close>. Numbers are real numbers: sums, quotients and square roots are the exact
  ones, not their IEEE-754 roundings.
\<close>

datatype jsnum = Undefined | Null | Num real

text \<open>\<^verbatim>\<open>v || 0\<close> for such a field: \<^verbatim>\<open>undefined\<close>, \<^verbatim>\<open>null\<close> and \<^verbatim>\<open>0\<close> are falsy.\<close>

definition num_or0 :: "jsnum \<Rightarrow> real" where
  "num_or0 v = (case v of Num x \<Rightarrow> x | _ \<Rightarrow> 0)"

definition opt_or0 :: "real option \<Rightarrow> real" where
  "opt_or0 v = (case v of Some x \<Rightarrow> x | None \<Rightarrow> 0)"

text \<open>\<^verbatim>\<open>Math.round(x * 100) / 100\<close>; \<^verbatim>\<open>Math.round\<close> rounds halves upwards.\<close>

definition math_round :: "real \<Rightarrow> real" where
  "math_round x = of_int \<lfloor>x + 1 / 2\<rfloor>"

definition round2 :: "real \<Rightarrow> real" where
  "round2 x = math_round (x * 100) / 100"

text \<open>\<^verbatim>\<open>[...new Set(xs)]\<close>: the distinct elements in order of first occurrence.\<close>

fun uniq :: "'a list \<Rightarrow> 'a list" where
  "uniq [] = []"
| "uniq (x # xs) = x # uniq (filter (\<lambda>y. y \<noteq> x) xs)"

text \<open>\<^verbatim>\<open>xs.indexOf(x)\<close>: the first position of \<open>x\<close>, or \<open>-1\<close>.\<close>

fun indexOf :: "'a list \<Rightarrow> 'a \<Rightarrow> int" where
  "indexOf [] x = -1"
| "indexOf (y # ys) x = (if y = x then 0 else (let i = indexOf ys x in if i < 0 then -1 else i + 1))"

text \<open>Decimal rendering of an integer inside a template literal.\<close>

fun show_nat :: "nat \<Rightarrow> string" where
  "show_nat n = (if n < 10 then [char_of (48 + n)] else show_nat (n div 10) @ [char_of (48 + n mod 10)])"

definition show_int :: "int \<Rightarrow> string" where
  "show_int i = (if i < 0 then CHR ''-'' # show_nat (nat (- i)) else show_nat (nat i))"

text \<open>
  \<^verbatim>\<open>xs.sort(cmp)\<close> is a stable sort. \<open>le a b\<close> stands for "\<^verbatim>\<open>cmp(a, b)\<close> is not
  positive" (a \<^verbatim>\<open>NaN\<close> difference counts as zero). With a comparator that is a
  total preorder every stable sort returns this list; for a comparator that is not
  (differences of invalid dates) the engine's order is its own, and no statement below
  depends on it.
\<close>

fun insert_by :: "('a \<Rightarrow> 'a \<Rightarrow> bool) \<Rightarrow> 'a \<Rightarrow> 'a list \<Rightarrow> 'a list" where
  "insert_by le x [] = [x]"
| "insert_by le x (y # ys) = (if le x y then x # y # ys else y # insert_by le x ys)"

fun sort_by :: "('a \<Rightarrow> 'a \<Rightarrow> bool) \<Rightarrow> 'a list \<Rightarrow> 'a list" where
  "sort_by le [] = []"
| "sort_by le (x # xs) = insert_by le x (sort_by le xs)"

text \<open>
  An object used as a dictionary keeps its string keys in insertion order, except that
  keys that are array indices (canonical decimal numerals below \<open>2^32 - 1\<close>) come first, in
  ascending numeric order. \<open>upsert\<close> is the idiom
  \<^verbatim>\<open>if (!o[k]) o[k] = init; o[k] = f(o[k])\<close> on the insertion-ordered association
  list; \<open>objectEntries\<close> is \<^verbatim>\<open>Object.entries\<close>. Keys are taken not to be names of
  members of \<^verbatim>\<open>Object.prototype\<close>, which a lookup in an object literal would find.
\<close>

fun upsert :: "'k \<Rightarrow> 'v \<Rightarrow> ('v \<Rightarrow> 'v) \<Rightarrow> ('k \<times> 'v) list \<Rightarrow> ('k \<times> 'v) list" where
  "upsert k init f [] = [(k, f init)]"
| "upsert k init f ((k', v) # kvs) =
     (if k' = k then (k', f v) # kvs else (k', v) # upsert k init f kvs)"

definition is_digit :: "char \<Rightarrow> bool" where
  "is_digit c = (48 \<le> (of_char c :: nat) \<and> (of_char c :: nat) \<le> 57)"

definition index_value :: "string \<Rightarrow> nat" where
  "index_value s = foldl (\<lambda>n c. 10 * n + ((of_char c :: nat) - 48)) 0 s"

definition is_array_index :: "string \<Rightarrow> bool" where
  "is_array_index s =
     (s \<noteq> [] \<and> list_all is_digit s \<and> (s = ''0'' \<or> hd s \<noteq> CHR ''0'') \<and> index_value s < 2 ^ 32 - 1)"

definition objectEntries :: "(string \<times> 'v) list \<Rightarrow> (string \<times> 'v) list" where
  "objectEntries kvs =
     sort_key (\<lambda>kv. index_value (fst kv)) (filter (\<lambda>kv. is_array_index (fst kv)) kvs)
     @ filter (\<lambda>kv. \<not> is_array_index (fst kv)) kvs"

section \<open>Stored records\<close>

text \<open>
  A bowl (one delivery) and a game as the record store returns them, with the fields the
  analytics module reads. \<open>g_date\<close> is the time value of \<^verbatim>\<open>new Date(game.date)\<close>,
  \<open>None\<close> for an invalid date.
\<close>

record bowl =
  b_gameId :: string
  b_playerId :: string
  b_team :: string
  b_position :: string
  b_endNumber :: int
  b_score :: jsnum
  b_scoreValue :: "real option"
  b_distance :: "real option"
  b_distanceInFeet :: "real option"
  b_hand :: "string option"
  b_resultCategory :: "string option"
  b_direction :: "string option"

record game =
  g_id :: string
  g_tournamentId :: "string option"
  g_tournamentName :: "string option"
  g_gameNumber :: "int option"
  g_format :: string
  g_gameType :: "string option"
  g_date :: "int option"
  g_players :: "string list option"
  g_yourPlayers :: "string list option"
  g_opponentPlayers :: "string list option"
  g_endCount :: "int option"
  g_totalEnds :: "int option"
  g_currentEnd :: "int option"
  g_completed :: "bool option"
  g_notes :: "string option"
  g_gameNotes :: "string option"

text \<open>\<^verbatim>\<open>b.scoreValue || b.score || 0\<close>, the score that sums and means add up.\<close>

definition sumScore :: "bowl \<Rightarrow> real" where
  "sumScore b =
     (case b_scoreValue b of
        Some v \<Rightarrow> if v \<noteq> 0 then v else num_or0 (b_score b)
      | None \<Rightarrow> num_or0 (b_score b))"

text \<open>\<^verbatim>\<open>b.scoreValue !== undefined ? b.scoreValue : (b.score || 0)\<close>, the score that is bucketed.\<close>

definition bucketScore :: "bowl \<Rightarrow> real" where
  "bucketScore b = (case b_scoreValue b of Some v \<Rightarrow> v | None \<Rightarrow> num_or0 (b_score b))"

text \<open>\<^verbatim>\<open>b.distance || b.distanceInFeet || 0\<close>.\<close>

definition distOf :: "bowl \<Rightarrow> real" where
  "distOf b =
     (case b_distance b of
        Some d \<Rightarrow> if d \<noteq> 0 then d else opt_or0 (b_distanceInFeet b)
      | None \<Rightarrow> opt_or0 (b_distanceInFeet b))"

text \<open>\<^verbatim>\<open>game.endCount || game.totalEnds || 21\<close>.\<close>

definition int_or :: "int option \<Rightarrow> int \<Rightarrow> int" where
  "int_or v dflt = (case v of Some n \<Rightarrow> if n \<noteq> 0 then n else dflt | None \<Rightarrow> dflt)"

definition totalEndsOf :: "game \<Rightarrow> int" where
  "totalEndsOf g = int_or (g_endCount g) (int_or (g_totalEnds g) 21)"

text \<open>\<^verbatim>\<open>s || dflt\<close> for an optional string: absent and empty strings are falsy.\<close>

definition str_or :: "string option \<Rightarrow> string \<Rightarrow> string" where
  "str_or v dflt = (case v of Some s \<Rightarrow> if s \<noteq> [] then s else dflt | None \<Rightarrow> dflt)"

section \<open>Player statistics: \<^verbatim>\<open>getPlayerStats\<close>\<close>

text \<open>
  The optional game filter is applied only when \<^verbatim>\<open>filterGameId\<close> is truthy: an
  absent filter and the empty string both mean "all games".
\<close>

definition cacheKey :: "string \<Rightarrow> string option \<Rightarrow> string" where
  "cacheKey playerName filterGameId =
     ''player_'' @ playerName @
       (case filterGameId of Some g \<Rightarrow> if g \<noteq> [] then ''_game_'' @ g else [] | None \<Rightarrow> [])"

definition playerBowls :: "bowl list \<Rightarrow> string \<Rightarrow> string option \<Rightarrow> bowl list" where
  "playerBowls allBowls playerName filterGameId =
     filter (\<lambda>b. b_playerId b = playerName \<and> b_team b = ''yours'')
       (case filterGameId of
          Some g \<Rightarrow> if g \<noteq> [] then filter (\<lambda>b. b_gameId b = g) allBowls else allBowls
        | None \<Rightarrow> allBowls)"

definition gameIds :: "bowl list \<Rightarrow> string list" where
  "gameIds pbs = uniq (map b_gameId pbs)"

definition positions :: "bowl list \<Rightarrow> string list" where
  "positions pbs = uniq (map b_position pbs)"

subsection \<open>Average score and score distribution\<close>

definition scoredBowls :: "bowl list \<Rightarrow> bowl list" where
  "scoredBowls pbs = filter (\<lambda>b. b_score b \<noteq> Undefined \<and> b_score b \<noteq> Null) pbs"

text \<open>
  \<^verbatim>\<open>xs.length > 0 ? xs.reduce((s, b) => s + (b.scoreValue || b.score || 0), 0) / xs.length : 0\<close>,
  the quotient that the module writes out for every mean.
\<close>

definition meanScore :: "bowl list \<Rightarrow> real" where
  "meanScore xs = (if length xs > 0 then sum_list (map sumScore xs) / real (length xs) else 0)"

definition avgScore :: "bowl list \<Rightarrow> real" where
  "avgScore pbs = meanScore (scoredBowls pbs)"

definition initDistribution :: "real \<rightharpoonup> nat" where
  "initDistribution = [0 \<mapsto> 0, 1 \<mapsto> 0, 2 \<mapsto> 0, 3 \<mapsto> 0, 4 \<mapsto> 0]"

definition bumpScore :: "bowl \<Rightarrow> (real \<rightharpoonup> nat) \<Rightarrow> (real \<rightharpoonup> nat)" where
  "bumpScore b d =
     (let s = bucketScore b in d(s \<mapsto> (case d s of Some c \<Rightarrow> c | None \<Rightarrow> 0) + 1))"

definition scoreDistribution :: "bowl list \<Rightarrow> (real \<rightharpoonup> nat)" where
  "scoreDistribution pbs = fold bumpScore (scoredBowls pbs) initDistribution"

subsection \<open>Success rate by distance zone\<close>

datatype zone = Close | Medium | Far

record zoneData =
  z_total :: nat
  z_good :: nat

definition zoneOf :: "bowl \<Rightarrow> zone" where
  "zoneOf b =
     (let dist = distOf b; distCm = dist * 30
      in if distCm < 20 then Close else if distCm < 50 then Medium else Far)"

definition zoneStep :: "bowl \<Rightarrow> (zone \<Rightarrow> zoneData) \<Rightarrow> (zone \<Rightarrow> zoneData)" where
  "zoneStep b dz =
     (let zn = zoneOf b;
          dz1 = dz(zn := (dz zn)\<lparr>z_total := z_total (dz zn) + 1\<rparr>);
          score = bucketScore b
      in if score \<ge> 3 then dz1(zn := (dz1 zn)\<lparr>z_good := z_good (dz1 zn) + 1\<rparr>) else dz1)"

definition distanceZones :: "bowl list \<Rightarrow> (zone \<Rightarrow> zoneData)" where
  "distanceZones pbs = fold zoneStep pbs (\<lambda>_. \<lparr>z_total = 0, z_good = 0\<rparr>)"

definition distanceSuccessRates :: "bowl list \<Rightarrow> (zone \<Rightarrow> real)" where
  "distanceSuccessRates pbs =
     (\<lambda>zn. let d = distanceZones pbs zn
           in if z_total d > 0 then real (z_good d) / real (z_total d) * 100 else 0)"

subsection \<open>Distance, hand and direction counts\<close>

record bowlDist =
  bd_short :: nat
  bd_medium :: nat
  bd_long :: nat

definition bowlDistStep :: "bowl \<Rightarrow> bowlDist \<Rightarrow> bowlDist" where
  "bowlDistStep b d =
     (let dist = distOf b
      in if dist < 67 / 100 then d\<lparr>bd_short := bd_short d + 1\<rparr>
         else if dist < 167 / 100 then d\<lparr>bd_medium := bd_medium d + 1\<rparr>
         else d\<lparr>bd_long := bd_long d + 1\<rparr>)"

definition bowlDistribution :: "bowl list \<Rightarrow> bowlDist" where
  "bowlDistribution pbs = fold bowlDistStep pbs \<lparr>bd_short = 0, bd_medium = 0, bd_long = 0\<rparr>"

record handDist =
  hd_forehand :: nat
  hd_backhand :: nat

definition handStep :: "bowl \<Rightarrow> handDist \<Rightarrow> handDist" where
  "handStep b d =
     (let hand = str_or (b_hand b) ''forehand''
      in if hand = ''backhand'' then d\<lparr>hd_backhand := hd_backhand d + 1\<rparr>
         else d\<lparr>hd_forehand := hd_forehand d + 1\<rparr>)"

definition handDistribution :: "bowl list \<Rightarrow> handDist" where
  "handDistribution pbs = fold handStep pbs \<lparr>hd_forehand = 0, hd_backhand = 0\<rparr>"

definition directionStep :: "bowl \<Rightarrow> (string \<rightharpoonup> nat) \<Rightarrow> (string \<rightharpoonup> nat)" where
  "directionStep b d =
     (let dir = str_or (b_resultCategory b) (str_or (b_direction b) [])
      in case d dir of Some c \<Rightarrow> d(dir \<mapsto> c + 1) | None \<Rightarrow> d)"

definition directionBreakdown :: "bowl list \<Rightarrow> (string \<rightharpoonup> nat)" where
  "directionBreakdown pbs =
     fold directionStep pbs [''Short'' \<mapsto> 0, ''Jack High'' \<mapsto> 0, ''Past'' \<mapsto> 0]"

subsection \<open>Per-game performance\<close>

record gamePerf =
  gp_gameId :: string
  gp_gameName :: string
  gp_date :: "int option"
  gp_avgScore :: real
  gp_bowlCount :: nat
  gp_format :: string

text \<open>"\<^verbatim>\<open>new Date(a) - new Date(b)\<close> is not positive", on the time values.\<close>

definition date_le :: "int option \<Rightarrow> int option \<Rightarrow> bool" where
  "date_le a b = (case (a, b) of (Some x, Some y) \<Rightarrow> x \<le> y | _ \<Rightarrow> True)"

definition gamePerfEntry :: "bowl list \<Rightarrow> game list \<Rightarrow> string list \<Rightarrow> string \<Rightarrow> gamePerf" where
  "gamePerfEntry pbs allGames gids gid =
     (let gameBowls = filter (\<lambda>b. b_gameId b = gid) pbs;
          game = find (\<lambda>g. g_id g = gid) allGames;
          gameScored = filter (\<lambda>b. b_score b \<noteq> Undefined) gameBowls;
          gameAvg = meanScore gameScored
      in \<lparr>gp_gameId = gid,
          gp_gameName =
            (case game of
               Some g \<Rightarrow> ''Game '' @ show_int (int_or (g_gameNumber g) (indexOf gids gid + 1))
             | None \<Rightarrow> gid),
          gp_date = (case game of Some g \<Rightarrow> g_date g | None \<Rightarrow> None),
          gp_avgScore = gameAvg,
          gp_bowlCount = length gameBowls,
          gp_format = (case game of Some g \<Rightarrow> g_format g | None \<Rightarrow> [])\<rparr>)"

definition gamePerformance :: "bowl list \<Rightarrow> game list \<Rightarrow> gamePerf list" where
  "gamePerformance pbs allGames =
     sort_by (\<lambda>a b. date_le (gp_date a) (gp_date b))
       (map (gamePerfEntry pbs allGames (gameIds pbs)) (gameIds pbs))"

subsection \<open>Best and worst ends\<close>

text \<open>
  \<^verbatim>\<open>endScores\<close> is keyed by \<^verbatim>\<open>b.gameId + '_' + b.endNumber\<close>. The rendering of a
  number holds no underscore, so the key determines the pair (game id, end number); it
  is never an array index, so \<^verbatim>\<open>Object.values\<close> lists the groups in insertion order.
  The model keys the association list by the pair.
\<close>

record endAgg =
  e_total :: real
  e_count :: nat
  e_end :: int
  e_gameId :: string

record endAvg =
  ea_total :: real
  ea_count :: nat
  ea_end :: int
  ea_gameId :: string
  ea_avg :: real

definition endStep :: "bowl \<Rightarrow> ((string \<times> int) \<times> endAgg) list \<Rightarrow> ((string \<times> int) \<times> endAgg) list" where
  "endStep b acc =
     upsert (b_gameId b, b_endNumber b)
       \<lparr>e_total = 0, e_count = 0, e_end = b_endNumber b, e_gameId = b_gameId b\<rparr>
       (\<lambda>e. e\<lparr>e_total := e_total e + sumScore b, e_count := e_count e + 1\<rparr>) acc"

definition endScores :: "bowl list \<Rightarrow> ((string \<times> int) \<times> endAgg) list" where
  "endScores pbs = fold endStep pbs []"

definition withAvg :: "endAgg \<Rightarrow> endAvg" where
  "withAvg e =
     \<lparr>ea_total = e_total e, ea_count = e_count e, ea_end = e_end e, ea_gameId = e_gameId e,
      ea_avg = (if e_count e > 0 then e_total e / real (e_count e) else 0)\<rparr>"

text \<open>\<^verbatim>\<open>Object.values(endScores).map(...)\<close>, before sorting.\<close>

definition endGroups :: "bowl list \<Rightarrow> endAvg list" where
  "endGroups pbs = map (\<lambda>kv. withAvg (snd kv)) (endScores pbs)"

text \<open>\<^verbatim>\<open>endAvgs.sort((a, b) => b.avg - a.avg)\<close>: stable, descending by average.\<close>

definition endAvgs :: "bowl list \<Rightarrow> endAvg list" where
  "endAvgs pbs = sort_key (\<lambda>e. - ea_avg e) (endGroups pbs)"

definition bestEnd :: "bowl list \<Rightarrow> endAvg option" where
  "bestEnd pbs = (case endAvgs pbs of [] \<Rightarrow> None | e # _ \<Rightarrow> Some e)"

definition worstEnd :: "bowl list \<Rightarrow> endAvg option" where
  "worstEnd pbs = (case endAvgs pbs of [] \<Rightarrow> None | e # es \<Rightarrow> Some (last (e # es)))"

subsection \<open>Consistency and clutch average\<close>

definition scores :: "bowl list \<Rightarrow> real list" where
  "scores pbs = map sumScore (scoredBowls pbs)"

definition variance :: "bowl list \<Rightarrow> real" where
  "variance pbs =
     (let mean = avgScore pbs
      in if length (scores pbs) > 0
         then sum_list (map (\<lambda>s. (s - mean) ^ 2) (scores pbs)) / real (length (scores pbs))
         else 0)"

definition consistency :: "bowl list \<Rightarrow> real" where
  "consistency pbs = sqrt (variance pbs)"

definition clutchBowls :: "bowl list \<Rightarrow> game list \<Rightarrow> bowl list" where
  "clutchBowls pbs allGames =
     filter (\<lambda>b. case find (\<lambda>g. g_id g = b_gameId b) allGames of
                   None \<Rightarrow> False
                 | Some game \<Rightarrow> b_endNumber b > totalEndsOf game - 3) pbs"

definition clutchScored :: "bowl list \<Rightarrow> game list \<Rightarrow> bowl list" where
  "clutchScored pbs allGames = filter (\<lambda>b. b_score b \<noteq> Undefined) (clutchBowls pbs allGames)"

definition clutchAvg :: "bowl list \<Rightarrow> game list \<Rightarrow> real" where
  "clutchAvg pbs allGames = meanScore (clutchScored pbs allGames)"

subsection \<open>The statistics object and the cache\<close>

record stats =
  st_playerName :: string
  st_totalBowls :: nat
  st_gamesPlayed :: nat
  st_positions :: "string list"
  st_avgScore :: real
  st_scoreDistribution :: "real \<rightharpoonup> nat"
  st_distanceSuccessRates :: "zone \<Rightarrow> real"
  st_bowlDistribution :: bowlDist
  st_handDistribution :: handDist
  st_gamePerformance :: "gamePerf list"
  st_bestEnd :: "endAvg option"
  st_worstEnd :: "endAvg option"
  st_consistency :: real
  st_clutchAvg :: real
  st_directionBreakdown :: "string \<rightharpoonup> nat"

text \<open>The statistics object built once \<^verbatim>\<open>playerBowls\<close> is known to be non-empty.\<close>

definition buildStats :: "string \<Rightarrow> bowl list \<Rightarrow> game list \<Rightarrow> stats" where
  "buildStats playerName pbs allGames =
     \<lparr>st_playerName = playerName,
      st_totalBowls = length pbs,
      st_gamesPlayed = length (gameIds pbs),
      st_positions = positions pbs,
      st_avgScore = round2 (avgScore pbs),
      st_scoreDistribution = scoreDistribution pbs,
      st_distanceSuccessRates = distanceSuccessRates pbs,
      st_bowlDistribution = bowlDistribution pbs,
      st_handDistribution = handDistribution pbs,
      st_gamePerformance = gamePerformance pbs allGames,
      st_bestEnd = bestEnd pbs,
      st_worstEnd = worstEnd pbs,
      st_consistency = round2 (consistency pbs),
      st_clutchAvg = round2 (clutchAvg pbs allGames),
      st_directionBreakdown = directionBreakdown pbs\<rparr>"

text \<open>
  \<^verbatim>\<open>analyticsCache\<close> is a global object from cache keys to results. A key the object
  does not hold is \<open>None\<close>; a key holding \<^verbatim>\<open>null\<close> would be \<open>Some None\<close>.
  \<^verbatim>\<open>getPlayerStats\<close> takes the cache and the two collections that
  \<^verbatim>\<open>getAllBowls()\<close> and \<^verbatim>\<open>getAllGames()\<close> resolve to, and returns its result
  (\<open>None\<close> for \<^verbatim>\<open>null\<close>) with the cache it leaves behind.
\<close>

type_synonym cache = "string \<rightharpoonup> stats option"

definition invalidateAnalyticsCache :: "cache \<Rightarrow> cache" where
  "invalidateAnalyticsCache analyticsCache = Map.empty"

definition getPlayerStats ::
    "cache \<Rightarrow> bowl list \<Rightarrow> game list \<Rightarrow> string \<Rightarrow> string option \<Rightarrow> stats option \<times> cache" where
  "getPlayerStats analyticsCache allBowls allGames playerName filterGameId =
     (let key = cacheKey playerName filterGameId
      in case analyticsCache key of
           Some (Some cached) \<Rightarrow> (Some cached, analyticsCache)
         | _ \<Rightarrow>
             (let pbs = playerBowls allBowls playerName filterGameId
              in if length pbs = 0 then (None, analyticsCache)
                 else (let st = buildStats playerName pbs allGames
                       in (Some st, analyticsCache(key \<mapsto> Some st)))))"

section \<open>Game summaries: \<^verbatim>\<open>getGameSummaries\<close>\<close>

record scoreAgg =
  ps_total :: real
  ps_count :: nat

definition playerScoreStep :: "bowl \<Rightarrow> (string \<times> scoreAgg) list \<Rightarrow> (string \<times> scoreAgg) list" where
  "playerScoreStep b acc =
     upsert (b_playerId b) \<lparr>ps_total = 0, ps_count = 0\<rparr>
       (\<lambda>d. d\<lparr>ps_total := ps_total d + sumScore b, ps_count := ps_count d + 1\<rparr>) acc"

definition playerScores :: "bowl list \<Rightarrow> (string \<times> scoreAgg) list" where
  "playerScores yourBowls = fold playerScoreStep yourBowls []"

definition playerAvg :: "scoreAgg \<Rightarrow> real" where
  "playerAvg d = (if ps_count d > 0 then ps_total d / real (ps_count d) else 0)"

text \<open>One turn of the loop over \<^verbatim>\<open>Object.entries(playerScores)\<close>; the state is
  \<^verbatim>\<open>(topPerformer, topAvg)\<close>.\<close>

definition topStep :: "string \<times> scoreAgg \<Rightarrow> string \<times> real \<Rightarrow> string \<times> real" where
  "topStep entry cur =
     (let avg = playerAvg (snd entry)
      in if avg > snd cur then (fst entry, avg) else cur)"

definition topPerformer :: "bowl list \<Rightarrow> string \<times> real" where
  "topPerformer yourBowls = fold topStep (objectEntries (playerScores yourBowls)) ([], 0)"

record summary =
  s_id :: string
  s_tournamentId :: "string option"
  s_tournamentName :: string
  s_gameNumber :: int
  s_format :: string
  s_gameType :: string
  s_date :: "int option"
  s_players :: "string list"
  s_opponentName :: string
  s_totalEnds :: int
  s_currentEnd :: int
  s_totalBowls :: nat
  s_avgScore :: real
  s_topPerformer :: string
  s_topAvg :: real
  s_completed :: bool
  s_notes :: string

definition gameSummary :: "bowl list \<Rightarrow> game \<Rightarrow> summary" where
  "gameSummary allBowls game =
     (let gameBowls = filter (\<lambda>b. b_gameId b = g_id game) allBowls;
          yourBowls = filter (\<lambda>b. b_team b = ''yours'') gameBowls;
          scoredBowls = filter (\<lambda>b. b_score b \<noteq> Undefined) yourBowls;
          avgScore = meanScore scoredBowls;
          tp = topPerformer yourBowls
      in \<lparr>s_id = g_id game,
          s_tournamentId = g_tournamentId game,
          s_tournamentName = str_or (g_tournamentName game) [],
          s_gameNumber = int_or (g_gameNumber game) 0,
          s_format = g_format game,
          s_gameType = str_or (g_gameType game) ''game'',
          s_date = g_date game,
          s_players =
            (case g_players game of
               Some ps \<Rightarrow> ps
             | None \<Rightarrow> (case g_yourPlayers game of Some ps \<Rightarrow> ps | None \<Rightarrow> [])),
          s_opponentName =
            (case g_opponentPlayers game of Some (p # _) \<Rightarrow> p | _ \<Rightarrow> []),
          s_totalEnds = totalEndsOf game,
          s_currentEnd = int_or (g_currentEnd game) (int_or (g_totalEnds game) 21),
          s_totalBowls = length gameBowls,
          s_avgScore = round2 avgScore,
          s_topPerformer = fst tp,
          s_topAvg = round2 (snd tp),
          s_completed = (case g_completed game of Some c \<Rightarrow> c | None \<Rightarrow> False),
          s_notes = str_or (g_notes game) (str_or (g_gameNotes game) [])\<rparr>)"

text \<open>\<^verbatim>\<open>allGames.map(...).sort((a, b) => new Date(b.date) - new Date(a.date))\<close>.\<close>

definition getGameSummaries :: "game list \<Rightarrow> bowl list \<Rightarrow> summary list" where
  "getGameSummaries allGames allBowls =
     sort_by (\<lambda>a b. date_le (s_date b) (s_date a)) (map (gameSummary allBowls) allGames)"

section \<open>Form indicators\<close>



definition isRecommended :: "stats \<Rightarrow> real \<Rightarrow> bool" where
  "isRecommended s threshold = (st_avgScore s \<ge> threshold)"


section \<open>Sample records\<close>

text \<open>
  A bowl as the app persists it (\<^verbatim>\<open>score\<close> is a copy of \<^verbatim>\<open>scoreValue\<close>,
  \<^verbatim>\<open>distance\<close> of \<^verbatim>\<open>distanceInFeet\<close>), a bowl that was stored without a score, and
  a game with an end count.
\<close>

definition exBowl :: "string \<Rightarrow> string \<Rightarrow> int \<Rightarrow> real \<Rightarrow> real \<Rightarrow> bowl" where
  "exBowl gid pid en sc ft =
     \<lparr>b_gameId = gid, b_playerId = pid, b_team = ''yours'', b_position = ''Lead'',
      b_endNumber = en, b_score = Num sc, b_scoreValue = Some sc, b_distance = Some ft,
      b_distanceInFeet = Some ft, b_hand = Some ''forehand'',
      b_resultCategory = Some ''Short'', b_direction = Some ''Short''\<rparr>"


definition exGame :: "string \<Rightarrow> int \<Rightarrow> int \<Rightarrow> game" where
  "exGame gid dt ends =
     \<lparr>g_id = gid, g_tournamentId = None, g_tournamentName = None, g_gameNumber = Some 1,
      g_format = ''singles'', g_gameType = None, g_date = Some dt, g_players = Some [''Ann''],
      g_yourPlayers = None, g_opponentPlayers = Some [''Opp''], g_endCount = Some ends,
      g_totalEnds = Some ends, g_currentEnd = Some ends, g_completed = Some True,
      g_notes = None, g_gameNotes = None\<rparr>"








definition tieSample :: "bowl list" where
  "tieSample = [exBowl ''g1'' ''Ann'' 1 2 1, exBowl ''g1'' ''Ann'' 2 2 1]"




section \<open>Groups in closed form\<close>

text \<open>
  What the two aggregation loops hold for a key after the whole list has been read: the
  bowls of one end of one game, the record \<^verbatim>\<open>endScores\<close> holds for them, and the
  record \<^verbatim>\<open>playerScores\<close> holds for a player.
\<close>

definition endMembers :: "bowl list \<Rightarrow> string \<Rightarrow> int \<Rightarrow> bowl list" where
  "endMembers pbs gid en = filter (\<lambda>b. b_gameId b = gid \<and> b_endNumber b = en) pbs"

definition endAggOf :: "bowl list \<Rightarrow> string \<times> int \<Rightarrow> endAgg" where
  "endAggOf pbs k =
     \<lparr>e_total = sum_list (map sumScore (endMembers pbs (fst k) (snd k))),
      e_count = length (endMembers pbs (fst k) (snd k)),
      e_end = snd k, e_gameId = fst k\<rparr>"


text \<open>"All scores are equal", as the specification words it; true of the empty list and of
  a list of one score.\<close>

definition allEqual :: "real list \<Rightarrow> bool" where
  "allEqual xs = (\<forall>a \<in> set xs. \<forall>b \<in> set xs. a = b)"

definition manySample :: "bowl list" where
  "manySample = replicate 39998 (exBowl ''g1'' ''Ann'' 1 3 1) @ [exBowl ''g1'' ''Ann'' 1 4 1]"

definition pairSample :: "bowl list" where
  "pairSample = [exBowl ''g1'' ''Ann'' 1 4 1, exBowl ''g1'' ''Ann'' 2 2 1]"

section \<open>Rounding\<close>

lemma round2_0: "round2 0 = 0"
  by (simp add: round2_def math_round_def)

lemma round2_int: "round2 (of_int n) = of_int n"
proof -
  have "\<lfloor>(of_int (n * 100) :: real) + 1 / 2\<rfloor> = n * 100"
    by linarith
  then show ?thesis
    by (simp add: round2_def math_round_def)
qed

section \<open>Success rates by distance zone\<close>








section \<open>The no-data result and the cache\<close>

lemma playerBowls_empty_iff:
  "playerBowls allBowls playerName filterGameId = [] \<longleftrightarrow>
     \<not> (\<exists>b \<in> set allBowls. b_playerId b = playerName \<and> b_team b = ''yours'' \<and>
            (\<forall>g. filterGameId = Some g \<and> g \<noteq> [] \<longrightarrow> b_gameId b = g))"
  by (auto simp: playerBowls_def filter_empty_conv split: option.splits)

text \<open>
  C1, as stated, fails: \<^verbatim>\<open>getPlayerStats\<close> looks into the cache before it filters,
  and returns what it finds there. First, statistics cached for Ann are returned again
  when the bowls are gone and the cache was not invalidated. Second, the cache key is a
  plain concatenation: once the statistics of player \<open>Ann\<close> in game \<open>g1\<close> are cached,
  a call for the player named \<open>Ann_game_g1\<close> without a game filter finds them under its
  own key and returns them, on the very same bowls, none of which carries that player id.
\<close>

theorem getPlayerStats_no_data_counterexample:
  "playerBowls [] ''Ann'' None = [] \<and>
   fst (getPlayerStats
          (snd (getPlayerStats Map.empty [exBowl ''g1'' ''Ann'' 1 4 1] [exGame ''g1'' 0 21] ''Ann'' None))
          [] [exGame ''g1'' 0 21] ''Ann'' None)
     = Some (buildStats ''Ann'' [exBowl ''g1'' ''Ann'' 1 4 1] [exGame ''g1'' 0 21]) \<and>
   playerBowls [exBowl ''g1'' ''Ann'' 1 4 1] ''Ann_game_g1'' None = [] \<and>
   fst (getPlayerStats
          (snd (getPlayerStats Map.empty [exBowl ''g1'' ''Ann'' 1 4 1] [exGame ''g1'' 0 21] ''Ann'' (Some ''g1'')))
          [exBowl ''g1'' ''Ann'' 1 4 1] [exGame ''g1'' 0 21] ''Ann_game_g1'' None)
     = Some (buildStats ''Ann'' [exBowl ''g1'' ''Ann'' 1 4 1] [exGame ''g1'' 0 21])"
  by (simp add: getPlayerStats_def playerBowls_def cacheKey_def exBowl_def Let_def)

text \<open>
  C1, amended. When the cache holds no statistics object under the call's key (as it
  does right after \<^verbatim>\<open>invalidateAnalyticsCache\<close>) and no bowl has the player id with
  team \<open>yours\<close> and, if a non-empty game filter is given, that game id, then
  \<^verbatim>\<open>getPlayerStats\<close> returns \<^verbatim>\<open>null\<close> and leaves the cache as it was.
\<close>

theorem getPlayerStats_no_data:
  assumes miss: "\<forall>cached. analyticsCache (cacheKey playerName filterGameId) \<noteq> Some (Some cached)"
    and nodata: "\<not> (\<exists>b \<in> set allBowls. b_playerId b = playerName \<and> b_team b = ''yours'' \<and>
            (\<forall>g. filterGameId = Some g \<and> g \<noteq> [] \<longrightarrow> b_gameId b = g))"
  shows "getPlayerStats analyticsCache allBowls allGames playerName filterGameId = (None, analyticsCache)"
proof -
  have e: "playerBowls allBowls playerName filterGameId = []"
    using nodata by (simp only: playerBowls_empty_iff not_False_eq_True)
  show ?thesis
    using miss by (simp add: getPlayerStats_def Let_def e split: option.splits)
qed

theorem getPlayerStats_no_data_witness:
  "getPlayerStats (invalidateAnalyticsCache Map.empty)
      [exBowl ''g1'' ''Ann'' 1 4 1, (exBowl ''g2'' ''Bob'' 1 3 1)\<lparr>b_team := ''opponent''\<rparr>]
      [exGame ''g1'' 0 21] ''Bob'' (Some ''g1'') = (None, invalidateAnalyticsCache Map.empty)"
  by (rule getPlayerStats_no_data) (simp_all add: exBowl_def invalidateAnalyticsCache_def)



section \<open>Bowls without a score\<close>







section \<open>Game summaries without bowls\<close>

lemma length_insert_by: "length (insert_by le x xs) = Suc (length xs)"
  by (induction xs) simp_all

lemma length_sort_by: "length (sort_by le xs) = length xs"
  by (induction xs) (simp_all add: length_insert_by)

lemma set_insert_by: "set (insert_by le x xs) = insert x (set xs)"
  by (induction xs) auto

lemma set_sort_by: "set (sort_by le xs) = set xs"
  by (induction xs) (simp_all add: set_insert_by)

lemma topPerformer_Nil: "topPerformer [] = ([], 0)"
  by (simp add: topPerformer_def playerScores_def objectEntries_def)

lemma gameSummary_no_bowls:
  "s_totalBowls (gameSummary [] g) = 0 \<and> s_avgScore (gameSummary [] g) = 0 \<and>
   s_topPerformer (gameSummary [] g) = [] \<and> s_topAvg (gameSummary [] g) = 0 \<and>
   s_id (gameSummary [] g) = g_id g"
  by (simp add: gameSummary_def topPerformer_Nil meanScore_def round2_0)

text \<open>
  C4, as stated, fails: \<^verbatim>\<open>getGameSummaries\<close> maps over the games, not over the bowls.
  With one game and no bowl at all it returns that game's summary.
\<close>

theorem getGameSummaries_empty_counterexample:
  "getGameSummaries [exGame ''g1'' 0 21] [] = [gameSummary [] (exGame ''g1'' 0 21)] \<and>
   getGameSummaries [exGame ''g1'' 0 21] [] \<noteq> []"
  by (simp add: getGameSummaries_def)

text \<open>
  C4, amended. \<^verbatim>\<open>getGameSummaries\<close> returns one summary per game, whatever the bowls
  are, and never fails: the result is empty exactly when there is no game. When there
  is no bowl, every summary has bowl count 0, average 0, no top performer (the empty
  name) and top average 0.
\<close>

theorem getGameSummaries_one_per_game:
  "length (getGameSummaries allGames allBowls) = length allGames \<and>
   (getGameSummaries allGames allBowls = [] \<longleftrightarrow> allGames = []) \<and>
   set (getGameSummaries allGames allBowls) = gameSummary allBowls ` set allGames \<and>
   (\<forall>s \<in> set (getGameSummaries allGames []).
      s_totalBowls s = 0 \<and> s_avgScore s = 0 \<and> s_topPerformer s = [] \<and> s_topAvg s = 0)"
proof -
  have l: "length (getGameSummaries allGames allBowls) = length allGames"
    by (simp add: getGameSummaries_def length_sort_by)
  have e: "getGameSummaries allGames allBowls = [] \<longleftrightarrow> allGames = []"
    using l by (metis length_0_conv)
  have s: "set (getGameSummaries allGames bs) = gameSummary bs ` set allGames" for bs
    by (simp add: getGameSummaries_def set_sort_by)
  have z: "\<forall>s \<in> set (getGameSummaries allGames []).
      s_totalBowls s = 0 \<and> s_avgScore s = 0 \<and> s_topPerformer s = [] \<and> s_topAvg s = 0"
    unfolding s by (simp add: gameSummary_no_bowls)
  show ?thesis
    using l e s z by blast
qed

theorem getGameSummaries_one_per_game_witness:
  "length (getGameSummaries [exGame ''g1'' 0 21, exGame ''g2'' 5 18] []) = 2 \<and>
   s_totalBowls (gameSummary [] (exGame ''g1'' 0 21)) = 0 \<and>
   s_topPerformer (gameSummary [] (exGame ''g1'' 0 21)) = []"
  using getGameSummaries_one_per_game [of "[exGame ''g1'' 0 21, exGame ''g2'' 5 18]" "[]"]
  by simp

section \<open>Form\<close>






section \<open>Clutch average\<close>





section \<open>Insertion-ordered dictionaries\<close>

lemma set_uniq: "set (uniq xs) = set xs"
  by (induction xs rule: uniq.induct) auto

lemma distinct_uniq: "distinct (uniq xs)"
  by (induction xs rule: uniq.induct) (auto simp: set_uniq)

lemma uniq_snoc: "uniq (xs @ [x]) = (if x \<in> set xs then uniq xs else uniq xs @ [x])"
  by (induction xs rule: uniq.induct) auto

lemma upsert_map_keys:
  "distinct ks \<Longrightarrow>
     upsert k i f (map (\<lambda>k'. (k', g k')) ks) =
       (if k \<in> set ks then map (\<lambda>k'. (k', if k' = k then f (g k') else g k')) ks
        else map (\<lambda>k'. (k', g k')) ks @ [(k, f i)])"
  by (induction ks) auto

section \<open>Best and worst end\<close>

lemma endScores_snoc: "endScores (bs @ [b]) = endStep b (endScores bs)"
  by (simp add: endScores_def)

lemma endAggOf_snoc:
  "endAggOf (bs @ [b]) k =
     (if k = (b_gameId b, b_endNumber b)
      then (endAggOf bs k)\<lparr>e_total := e_total (endAggOf bs k) + sumScore b, e_count := e_count (endAggOf bs k) + 1\<rparr>
      else endAggOf bs k)"
  by (cases k) (auto simp: endAggOf_def endMembers_def)

lemma endAggOf_fresh:
  "(b_gameId b, b_endNumber b) \<notin> set (map (\<lambda>b. (b_gameId b, b_endNumber b)) bs) \<Longrightarrow>
     endAggOf bs (b_gameId b, b_endNumber b)
       = \<lparr>e_total = 0, e_count = 0, e_end = b_endNumber b, e_gameId = b_gameId b\<rparr>"
proof -
  assume "(b_gameId b, b_endNumber b) \<notin> set (map (\<lambda>b. (b_gameId b, b_endNumber b)) bs)"
  then have "endMembers bs (b_gameId b) (b_endNumber b) = []"
    by (force simp: endMembers_def filter_empty_conv image_iff)
  then show ?thesis by (simp add: endAggOf_def)
qed

lemma endScores_closed:
  "endScores pbs = map (\<lambda>k. (k, endAggOf pbs k)) (uniq (map (\<lambda>b. (b_gameId b, b_endNumber b)) pbs))"
proof (induction pbs rule: rev_induct)
  case Nil
  show ?case by (simp add: endScores_def)
next
  case (snoc b bs)
  let ?key = "\<lambda>b. (b_gameId b, b_endNumber b)"
  let ?ks = "uniq (map ?key bs)"
  let ?upd = "\<lambda>e. e\<lparr>e_total := e_total e + sumScore b, e_count := e_count e + 1\<rparr>"
  let ?init = "\<lparr>e_total = 0, e_count = 0, e_end = b_endNumber b, e_gameId = b_gameId b\<rparr>"
  have step: "endScores (bs @ [b]) = upsert (?key b) ?init ?upd (map (\<lambda>k. (k, endAggOf bs k)) ?ks)"
    by (simp only: endScores_snoc endStep_def snoc.IH)
  show ?case
  proof (cases "?key b \<in> set (map ?key bs)")
    case True
    then have m: "?key b \<in> set ?ks" by (simp only: set_uniq)
    have "endScores (bs @ [b]) = map (\<lambda>k'. (k', if k' = ?key b then ?upd (endAggOf bs k') else endAggOf bs k')) ?ks"
      unfolding step using m by (simp only: upsert_map_keys [OF distinct_uniq] if_True)
    also have "\<dots> = map (\<lambda>k. (k, endAggOf (bs @ [b]) k)) ?ks"
      by (rule map_cong) (simp_all add: endAggOf_snoc)
    also have "?ks = uniq (map ?key (bs @ [b]))"
      using True by (simp add: uniq_snoc)
    finally show ?thesis .
  next
    case False
    then have m: "?key b \<notin> set ?ks" by (simp only: set_uniq not_False_eq_True)
    have "endScores (bs @ [b]) = map (\<lambda>k. (k, endAggOf bs k)) ?ks @ [(?key b, ?upd ?init)]"
      unfolding step using m by (simp only: upsert_map_keys [OF distinct_uniq] if_False)
    also have "map (\<lambda>k. (k, endAggOf bs k)) ?ks = map (\<lambda>k. (k, endAggOf (bs @ [b]) k)) ?ks"
      using m by (intro map_cong refl) (auto simp: endAggOf_snoc)
    also have "?upd ?init = endAggOf (bs @ [b]) (?key b)"
      using endAggOf_fresh [OF False] by (simp add: endAggOf_snoc)
    also have "map (\<lambda>k. (k, endAggOf (bs @ [b]) k)) ?ks @ [(?key b, endAggOf (bs @ [b]) (?key b))]
        = map (\<lambda>k. (k, endAggOf (bs @ [b]) k)) (uniq (map ?key (bs @ [b])))"
      using False by (simp add: uniq_snoc)
    finally show ?thesis .
  qed
qed

lemma find_filter: "find P xs = (case filter P xs of [] \<Rightarrow> None | x # _ \<Rightarrow> Some x)"
  by (induction xs) simp_all

lemma find_rev_filter:
  "find P (rev xs) = (if filter P xs = [] then None else Some (last (filter P xs)))"
proof -
  have c: "(case rev zs of [] \<Rightarrow> None | x # _ \<Rightarrow> Some x) = (if zs = [] then None else Some (last zs))"
    for zs :: "'a list"
    by (cases zs rule: rev_cases) simp_all
  show ?thesis
    by (simp only: find_filter [of P "rev xs"] rev_filter [symmetric] c)
qed

lemma sort_key_first_least:
  assumes s: "sort_key f xs = y # ys"
  shows "find (\<lambda>x. \<forall>z \<in> set xs. f x \<le> f z) xs = Some y"
proof -
  have srt: "sorted (map f (y # ys))"
    using sorted_sort_key [of f xs] by (simp only: s)
  have st: "set xs = set (y # ys)"
    using set_sort [of f xs] by (simp only: s)
  have least: "\<forall>z \<in> set xs. f y \<le> f z"
    using srt unfolding st by auto
  have yin: "y \<in> set xs" unfolding st by simp
  have "filter (\<lambda>x. \<forall>z \<in> set xs. f x \<le> f z) xs = filter (\<lambda>x. f x = f y) xs"
  proof (rule filter_cong [OF refl])
    fix x assume "x \<in> set xs"
    then show "(\<forall>z \<in> set xs. f x \<le> f z) = (f x = f y)"
      using least yin by (auto intro: antisym)
  qed
  also have "\<dots> = filter (\<lambda>x. f x = f y) (sort_key f xs)"
    by (simp only: sort_key_stable)
  also have "\<dots> = y # filter (\<lambda>x. f x = f y) ys"
    by (simp add: s)
  finally show ?thesis
    by (simp add: find_filter)
qed

lemma sort_key_last_greatest:
  assumes ne: "xs \<noteq> []"
  shows "find (\<lambda>x. \<forall>z \<in> set xs. f z \<le> f x) (rev xs) = Some (last (sort_key f xs))"
proof -
  let ?s = "sort_key f xs"
  let ?l = "last ?s"
  have sne: "?s \<noteq> []"
    using ne by (metis length_sort length_0_conv)
  have dec: "?s = butlast ?s @ [?l]"
    using sne by simp
  have srt: "sorted (map f (butlast ?s @ [?l]))"
    using sorted_sort_key [of f xs] dec by simp
  have big: "\<forall>z \<in> set (butlast ?s). f z \<le> f ?l"
    using srt by (simp add: sorted_append)
  have st: "set xs = set (butlast ?s) \<union> {?l}"
  proof -
    have "set xs = set ?s" by simp
    also have "\<dots> = set (butlast ?s @ [?l])" using dec by simp
    finally show ?thesis by simp
  qed
  have greatest: "\<forall>z \<in> set xs. f z \<le> f ?l"
    unfolding st using big by auto
  have lin: "?l \<in> set xs" unfolding st by simp
  have "filter (\<lambda>x. \<forall>z \<in> set xs. f z \<le> f x) xs = filter (\<lambda>x. f x = f ?l) xs"
  proof (rule filter_cong [OF refl])
    fix x assume "x \<in> set xs"
    then show "(\<forall>z \<in> set xs. f z \<le> f x) = (f x = f ?l)"
      using greatest lin by (auto intro: antisym)
  qed
  also have "\<dots> = filter (\<lambda>x. f x = f ?l) ?s"
    by (simp only: sort_key_stable)
  also have "\<dots> = filter (\<lambda>x. f x = f ?l) (butlast ?s) @ [?l]"
    by (subst dec) simp
  finally have fl: "filter (\<lambda>x. \<forall>z \<in> set xs. f z \<le> f x) xs = filter (\<lambda>x. f x = f ?l) (butlast ?s) @ [?l]" .
  show ?thesis
    unfolding find_rev_filter fl by simp
qed

lemma endGroups_closed:
  "endGroups pbs = map (\<lambda>k. withAvg (endAggOf pbs k)) (uniq (map (\<lambda>b. (b_gameId b, b_endNumber b)) pbs))"
  by (simp add: endGroups_def endScores_closed comp_def)

lemma endGroups_keys:
  "map (\<lambda>e. (ea_gameId e, ea_end e)) (endGroups pbs) = uniq (map (\<lambda>b. (b_gameId b, b_endNumber b)) pbs)"
  by (simp add: endGroups_closed comp_def withAvg_def endAggOf_def)

lemma endGroups_avg:
  "e \<in> set (endGroups pbs) \<Longrightarrow>
     ea_total e = sum_list (map sumScore (endMembers pbs (ea_gameId e) (ea_end e))) \<and>
     ea_count e = length (endMembers pbs (ea_gameId e) (ea_end e)) \<and>
     ea_avg e = meanScore (endMembers pbs (ea_gameId e) (ea_end e))"
  by (auto simp: endGroups_closed withAvg_def endAggOf_def meanScore_def)

lemma endGroups_nonempty: "pbs \<noteq> [] \<Longrightarrow> endGroups pbs \<noteq> []"
proof -
  assume "pbs \<noteq> []"
  then have "set (uniq (map (\<lambda>b. (b_gameId b, b_endNumber b)) pbs)) \<noteq> {}"
    by (simp add: set_uniq)
  then show ?thesis
    by (auto simp: endGroups_closed)
qed

lemma tie_groups:
  "endGroups tieSample =
     [\<lparr>ea_total = 2, ea_count = 1, ea_end = 1, ea_gameId = ''g1'', ea_avg = 2\<rparr>,
      \<lparr>ea_total = 2, ea_count = 1, ea_end = 2, ea_gameId = ''g1'', ea_avg = 2\<rparr>]"
  by (simp add: endGroups_def endScores_def endStep_def tieSample_def exBowl_def withAvg_def sumScore_def)

text \<open>
  C3, as stated, fails for the worst end: the groups are sorted by a stable sort,
  descending by average, and the worst end is the last element. Among groups of equal
  lowest average that is the one met last. With one bowl of score 2 in end 1 and one in
  end 2, the best end is end 1 and the worst end is end 2.
\<close>

theorem worstEnd_tie_counterexample:
  "map ea_avg (endGroups tieSample) = [2, 2] \<and>
   map_option ea_end (bestEnd tieSample) = Some 1 \<and>
   map_option ea_end (worstEnd tieSample) = Some 2"
  by (simp add: bestEnd_def worstEnd_def endAvgs_def tie_groups)

text \<open>
  C3, amended. For a non-empty list of matching bowls the groups are the pairs (game id,
  end number) in order of first occurrence, and a group's average is the mean score of
  its bowls. \<^verbatim>\<open>bestEnd\<close> is the first group, in that order, whose average no group
  exceeds; \<^verbatim>\<open>worstEnd\<close> is the last group, in that order, whose average no group
  undercuts. Neither is \<^verbatim>\<open>null\<close>.
\<close>

theorem bestEnd_worstEnd:
  assumes ne: "pbs \<noteq> []"
  shows "map (\<lambda>e. (ea_gameId e, ea_end e)) (endGroups pbs)
           = uniq (map (\<lambda>b. (b_gameId b, b_endNumber b)) pbs) \<and>
         (\<forall>e \<in> set (endGroups pbs). ea_avg e = meanScore (endMembers pbs (ea_gameId e) (ea_end e))) \<and>
         bestEnd pbs = find (\<lambda>e. \<forall>e' \<in> set (endGroups pbs). ea_avg e' \<le> ea_avg e) (endGroups pbs) \<and>
         worstEnd pbs = find (\<lambda>e. \<forall>e' \<in> set (endGroups pbs). ea_avg e \<le> ea_avg e') (rev (endGroups pbs)) \<and>
         bestEnd pbs \<noteq> None \<and> worstEnd pbs \<noteq> None"
proof -
  have g: "endGroups pbs \<noteq> []"
    using ne by (rule endGroups_nonempty)
  then obtain y ys where s: "endAvgs pbs = y # ys"
    unfolding endAvgs_def by (metis length_sort length_0_conv neq_Nil_conv)
  have b: "bestEnd pbs = Some y"
    by (simp add: bestEnd_def s)
  have w: "worstEnd pbs = Some (last (endAvgs pbs))"
    by (simp add: worstEnd_def s)
  have fb: "find (\<lambda>e. \<forall>e' \<in> set (endGroups pbs). ea_avg e' \<le> ea_avg e) (endGroups pbs) = Some y"
    using sort_key_first_least [of "\<lambda>e. - ea_avg e" "endGroups pbs" y ys] s
    by (simp add: endAvgs_def)
  have fw: "find (\<lambda>e. \<forall>e' \<in> set (endGroups pbs). ea_avg e \<le> ea_avg e') (rev (endGroups pbs))
      = Some (last (endAvgs pbs))"
    using sort_key_last_greatest [OF g, of "\<lambda>e. - ea_avg e"]
    by (simp add: endAvgs_def)
  show ?thesis
    using endGroups_keys [of pbs] endGroups_avg [of _ pbs] b w fb fw by simp
qed

theorem bestEnd_worstEnd_witness:
  "bestEnd tieSample = Some \<lparr>ea_total = 2, ea_count = 1, ea_end = 1, ea_gameId = ''g1'', ea_avg = 2\<rparr> \<and>
   worstEnd tieSample = Some \<lparr>ea_total = 2, ea_count = 1, ea_end = 2, ea_gameId = ''g1'', ea_avg = 2\<rparr>"
proof -
  have ne: "tieSample \<noteq> []" by (simp add: tieSample_def)
  show ?thesis
    using bestEnd_worstEnd [OF ne] by (simp add: tie_groups)
qed

section \<open>Top performer\<close>















section \<open>Consistency\<close>

lemma math_round_0_iff: "math_round y = 0 \<longleftrightarrow> - (1 / 2) \<le> y \<and> y < 1 / 2"
proof -
  have "math_round y = 0 \<longleftrightarrow> \<lfloor>y + 1 / 2\<rfloor> = 0"
    by (simp add: math_round_def)
  also have "\<dots> \<longleftrightarrow> 0 \<le> y + 1 / 2 \<and> y + 1 / 2 < 1"
    by (simp add: floor_eq_iff)
  finally show ?thesis by auto
qed

lemma round2_0_iff: "round2 x = 0 \<longleftrightarrow> - (1 / 200) \<le> x \<and> x < 1 / 200"
  by (auto simp: round2_def math_round_0_iff)

lemma round2_sqrt_0_iff:
  assumes "0 \<le> v"
  shows "round2 (sqrt v) = 0 \<longleftrightarrow> v < 1 / 40000"
proof -
  have "round2 (sqrt v) = 0 \<longleftrightarrow> sqrt v < 1 / 200"
    using assms by (auto simp: round2_0_iff intro: order_trans [of _ 0])
  also have "\<dots> \<longleftrightarrow> sqrt v < sqrt ((1 / 200)\<^sup>2)"
    by simp
  also have "\<dots> \<longleftrightarrow> v < (1 / 200)\<^sup>2"
    by (rule real_sqrt_less_iff)
  finally show ?thesis by (simp add: power2_eq_square)
qed

text \<open>The sum of squared deviations from a value \<open>m\<close>.\<close>

lemma sq_dev_expand:
  "sum_list (map (\<lambda>s. (s - m)\<^sup>2) (xs :: real list))
     = sum_list (map (\<lambda>s. s\<^sup>2) xs) - 2 * m * sum_list xs + real (length xs) * m\<^sup>2"
  by (induction xs) (simp_all add: power2_eq_square algebra_simps)

lemma sq_dev_nonneg: "0 \<le> sum_list (map (\<lambda>s. (s - m)\<^sup>2) (xs :: real list))"
  by (induction xs) simp_all

lemma sq_dev_0_iff:
  "sum_list (map (\<lambda>s. (s - m)\<^sup>2) (xs :: real list)) = 0 \<longleftrightarrow> (\<forall>s \<in> set xs. s = m)"
proof (induction xs)
  case Nil
  show ?case by simp
next
  case (Cons a xs)
  have "(a - m)\<^sup>2 + sum_list (map (\<lambda>s. (s - m)\<^sup>2) xs) = 0
      \<longleftrightarrow> (a - m)\<^sup>2 = 0 \<and> sum_list (map (\<lambda>s. (s - m)\<^sup>2) xs) = 0"
    by (rule add_nonneg_eq_0_iff) (simp_all add: sq_dev_nonneg)
  then show ?case
    using Cons.IH by simp
qed

lemma variance_scores:
  "variance pbs =
     (if scores pbs = [] then 0
      else sum_list (map (\<lambda>s. (s - sum_list (scores pbs) / real (length (scores pbs)))\<^sup>2) (scores pbs))
             / real (length (scores pbs)))"
  by (simp add: variance_def avgScore_def meanScore_def scores_def Let_def)

lemma variance_nonneg: "0 \<le> variance pbs"
  by (simp add: variance_scores sq_dev_nonneg)

lemma allEqual_mean:
  assumes "xs \<noteq> []"
  shows "allEqual xs \<longleftrightarrow> (\<forall>s \<in> set xs. s = sum_list xs / real (length xs))"
proof
  assume a: "allEqual xs"
  obtain c where c: "c \<in> set xs" using assms by (cases xs) auto
  have all: "\<forall>s \<in> set xs. s = c" using a c by (auto simp: allEqual_def)
  then have "xs = replicate (length xs) c"
    by (simp add: replicate_length_same)
  then have "sum_list xs = real (length xs) * c"
    by (metis sum_list_replicate)
  then have "sum_list xs / real (length xs) = c"
    using assms by simp
  then show "\<forall>s \<in> set xs. s = sum_list xs / real (length xs)"
    using all by simp
next
  assume "\<forall>s \<in> set xs. s = sum_list xs / real (length xs)"
  then show "allEqual xs" unfolding allEqual_def by metis
qed

lemma variance_0_iff: "variance pbs = 0 \<longleftrightarrow> allEqual (scores pbs)"
proof (cases "scores pbs = []")
  case True
  then show ?thesis by (simp add: variance_scores allEqual_def)
next
  case False
  then show ?thesis
    by (simp add: variance_scores sq_dev_0_iff allEqual_mean)
qed

text \<open>\<open>n\<close> times the sum of squares minus the square of the sum.\<close>

lemma sq_dev_scaled:
  fixes xs :: "real list"
  assumes "xs \<noteq> []"
  shows "real (length xs) * sum_list (map (\<lambda>s. (s - sum_list xs / real (length xs))\<^sup>2) xs)
           = real (length xs) * sum_list (map (\<lambda>s. s\<^sup>2) xs) - (sum_list xs)\<^sup>2"
proof -
  have n: "real (length xs) \<noteq> 0" using assms by simp
  show ?thesis
    unfolding sq_dev_expand using n
    by (simp add: power2_eq_square algebra_simps)
qed

lemma spread_Cons:
  fixes xs :: "real list"
  shows "real (length (x # xs)) * sum_list (map (\<lambda>s. s\<^sup>2) (x # xs)) - (sum_list (x # xs))\<^sup>2
           = (real (length xs) * sum_list (map (\<lambda>s. s\<^sup>2) xs) - (sum_list xs)\<^sup>2)
             + sum_list (map (\<lambda>s. (s - x)\<^sup>2) xs)"
  unfolding sq_dev_expand by (simp add: power2_eq_square algebra_simps)

lemma spread_nonneg:
  fixes xs :: "real list"
  shows "0 \<le> real (length xs) * sum_list (map (\<lambda>s. s\<^sup>2) xs) - (sum_list xs)\<^sup>2"
proof (induction xs)
  case Nil
  show ?case by simp
next
  case (Cons x xs)
  show ?case
    unfolding spread_Cons using Cons.IH sq_dev_nonneg [of x xs] by linarith
qed

lemma sum_list_ge_length:
  fixes f :: "real \<Rightarrow> real"
  assumes "\<forall>y \<in> set xs. 1 \<le> f y"
  shows "real (length xs) \<le> sum_list (map f xs)"
  using assms by (induction xs) auto

lemma sum_list_ge_one:
  fixes f :: "real \<Rightarrow> real"
  assumes "y \<in> set xs" "1 \<le> f y" "\<forall>z \<in> set xs. 0 \<le> f z"
  shows "1 \<le> sum_list (map f xs)"
  using assms
proof (induction xs)
  case Nil
  then show ?case by simp
next
  case (Cons a xs)
  have nn: "0 \<le> sum_list (map f xs)"
    using Cons.prems(3) by (intro sum_list_nonneg) auto
  show ?case
  proof (cases "y = a")
    case True
    then show ?thesis using Cons.prems(2) nn by simp
  next
    case False
    then have "1 \<le> sum_list (map f xs)"
      using Cons by auto
    moreover have "0 \<le> f a" using Cons.prems(3) by simp
    ultimately show ?thesis by simp
  qed
qed

lemma spread_lower:
  fixes xs :: "real list"
  assumes sep: "\<forall>a \<in> set xs. \<forall>b \<in> set xs. a \<noteq> b \<longrightarrow> 1 \<le> (a - b)\<^sup>2"
    and ne: "\<not> allEqual xs"
  shows "real (length xs) - 1 \<le> real (length xs) * sum_list (map (\<lambda>s. s\<^sup>2) xs) - (sum_list xs)\<^sup>2"
  using sep ne
proof (induction xs)
  case Nil
  then show ?case by (simp add: allEqual_def)
next
  case (Cons x xs)
  have sep': "\<forall>a \<in> set xs. \<forall>b \<in> set xs. a \<noteq> b \<longrightarrow> 1 \<le> (a - b)\<^sup>2"
    using Cons.prems(1) by simp
  have sepx: "\<forall>y \<in> set xs. y \<noteq> x \<longrightarrow> 1 \<le> (y - x)\<^sup>2"
    using Cons.prems(1) by simp
  show ?case
  proof (cases "allEqual xs")
    case True
    have "\<forall>y \<in> set xs. y \<noteq> x"
    proof (rule ccontr)
      assume "\<not> (\<forall>y \<in> set xs. y \<noteq> x)"
      then have "x \<in> set xs" by auto
      then have "allEqual (x # xs)"
        using True unfolding allEqual_def by auto
      then show False using Cons.prems(2) by simp
    qed
    then have "\<forall>y \<in> set xs. 1 \<le> (y - x)\<^sup>2"
      using sepx by simp
    then have "real (length xs) \<le> sum_list (map (\<lambda>s. (s - x)\<^sup>2) xs)"
      by (rule sum_list_ge_length)
    then show ?thesis
      unfolding spread_Cons using spread_nonneg [of xs] by simp
  next
    case False
    have ih: "real (length xs) - 1 \<le> real (length xs) * sum_list (map (\<lambda>s. s\<^sup>2) xs) - (sum_list xs)\<^sup>2"
      using Cons.IH [OF sep' False] .
    obtain y where y: "y \<in> set xs" "y \<noteq> x"
      using False unfolding allEqual_def by metis
    have "1 \<le> sum_list (map (\<lambda>s. (s - x)\<^sup>2) xs)"
      using y sepx by (intro sum_list_ge_one [of y]) auto
    then show ?thesis
      unfolding spread_Cons using ih by simp
  qed
qed

lemma int_separated:
  fixes a b :: real
  assumes "a \<in> \<int>" "b \<in> \<int>" "a \<noteq> b"
  shows "1 \<le> (a - b)\<^sup>2"
proof -
  obtain i j :: int where ij: "a = of_int i" "b = of_int j"
    using assms(1,2) by (auto elim!: Ints_cases)
  have "i \<noteq> j" using assms(3) ij by auto
  then have "0 < (i - j)\<^sup>2"
    by simp
  then have "1 \<le> (i - j)\<^sup>2"
    by linarith
  then have "(1::real) \<le> of_int ((i - j)\<^sup>2)"
    by (metis of_int_1_le_iff)
  then show ?thesis by (simp add: ij)
qed

lemma variance_lower:
  assumes ints: "\<forall>s \<in> set (scores pbs). s \<in> \<int>"
    and ne: "\<not> allEqual (scores pbs)"
  shows "(real (length (scores pbs)) - 1) / (real (length (scores pbs)))\<^sup>2 \<le> variance pbs"
proof -
  let ?xs = "scores pbs"
  let ?n = "real (length ?xs)"
  have nz: "?xs \<noteq> []" using ne by (auto simp: allEqual_def)
  then have n: "0 < ?n" by simp
  have sep: "\<forall>a \<in> set ?xs. \<forall>b \<in> set ?xs. a \<noteq> b \<longrightarrow> 1 \<le> (a - b)\<^sup>2"
    using ints int_separated by blast
  have lo: "?n - 1 \<le> ?n * sum_list (map (\<lambda>s. s\<^sup>2) ?xs) - (sum_list ?xs)\<^sup>2"
    using sep ne by (rule spread_lower)
  have v: "variance pbs = sum_list (map (\<lambda>s. (s - sum_list ?xs / ?n)\<^sup>2) ?xs) / ?n"
    using nz by (simp add: variance_scores)
  have "?n * (?n * variance pbs) = ?n * sum_list (map (\<lambda>s. s\<^sup>2) ?xs) - (sum_list ?xs)\<^sup>2"
    unfolding v using n sq_dev_scaled [OF nz] by simp
  then have "?n - 1 \<le> ?n\<^sup>2 * variance pbs"
    using lo by (simp add: power2_eq_square mult.assoc)
  then show ?thesis
    using n by (simp add: divide_le_eq mult.commute)
qed

lemma few_scores_bound:
  fixes n :: real
  assumes "2 \<le> n" "n \<le> 39998"
  shows "1 / 40000 \<le> (n - 1) / n\<^sup>2"
proof -
  have "0 \<le> (n - 2) * (39998 - n)"
    using assms by (intro mult_nonneg_nonneg) simp_all
  then have "n\<^sup>2 \<le> 40000 * (n - 1)"
    by (simp add: power2_eq_square algebra_simps)
  moreover have "0 < n\<^sup>2" using assms by simp
  ultimately show ?thesis
    by (simp add: le_divide_eq)
qed

lemma not_allEqual_two: "\<not> allEqual xs \<Longrightarrow> 2 \<le> length xs"
proof (cases xs)
  case Nil
  assume "\<not> allEqual xs"
  then show ?thesis using Nil by (simp add: allEqual_def)
next
  case (Cons a ys)
  assume "\<not> allEqual xs"
  then have "ys \<noteq> []" using Cons by (auto simp: allEqual_def)
  then show ?thesis using Cons by (cases ys) simp_all
qed

lemma pair_scores: "scores pairSample = [4, 2]"
  by (simp add: scores_def scoredBowls_def pairSample_def exBowl_def sumScore_def)

lemma pair_variance: "variance pairSample = 1"
  by (simp add: variance_scores pair_scores power2_eq_square)

lemma many_scores: "scores manySample = replicate 39998 3 @ [4]"
  by (simp add: scores_def scoredBowls_def manySample_def exBowl_def sumScore_def)

lemma many_variance: "variance manySample = 39998 / 39999\<^sup>2"
  by (simp add: variance_scores many_scores sum_list_replicate power2_eq_square)

text \<open>
  C7, as stated, fails in one direction: the standard deviation is rounded to 2
  decimals, so a deviation below 0.005 shows as 0. With 39998 bowls of score 3 and one
  bowl of score 4 the variance is 39998 divided by the square of 39999, which is below
  1 / 40000, and the consistency is 0 although the scores are not all equal.
\<close>

theorem consistency_zero_counterexample:
  "length (scores manySample) = 39999 \<and> 3 \<in> set (scores manySample) \<and> 4 \<in> set (scores manySample) \<and>
   st_consistency (buildStats ''Ann'' manySample []) = 0"
proof -
  have "variance manySample < 1 / 40000"
    by (simp add: many_variance power2_eq_square)
  moreover have "0 \<le> variance manySample"
    by (rule variance_nonneg)
  ultimately have "round2 (sqrt (variance manySample)) = 0"
    by (simp add: round2_sqrt_0_iff)
  then show ?thesis
    by (simp add: buildStats_def consistency_def many_scores)
qed

text \<open>
  C7, amended. The consistency is 0 when all scores are equal, which includes no score
  and one score. The standard deviation before rounding is 0 exactly when all scores
  are equal, and the consistency is 0 exactly when that deviation is below 0.005. For
  integer scores of at most 39998 scored bowls the consistency is 0 exactly when all
  scores are equal.
\<close>

theorem consistency_zero:
  "(allEqual (scores pbs) \<longrightarrow> st_consistency (buildStats playerName pbs allGames) = 0) \<and>
   (consistency pbs = 0 \<longleftrightarrow> allEqual (scores pbs)) \<and>
   (st_consistency (buildStats playerName pbs allGames) = 0 \<longleftrightarrow> consistency pbs < 1 / 200) \<and>
   ((\<forall>s \<in> set (scores pbs). s \<in> \<int>) \<and> length (scores pbs) \<le> 39998 \<longrightarrow>
      (st_consistency (buildStats playerName pbs allGames) = 0 \<longleftrightarrow> allEqual (scores pbs)))"
proof -
  have st: "st_consistency (buildStats playerName pbs allGames) = round2 (sqrt (variance pbs))"
    by (simp add: buildStats_def consistency_def)
  have r: "round2 (sqrt (variance pbs)) = 0 \<longleftrightarrow> variance pbs < 1 / 40000"
    using variance_nonneg by (rule round2_sqrt_0_iff)
  have c0: "consistency pbs = 0 \<longleftrightarrow> allEqual (scores pbs)"
    by (simp add: consistency_def variance_0_iff)
  have a: "allEqual (scores pbs) \<longrightarrow> st_consistency (buildStats playerName pbs allGames) = 0"
    unfolding st r using variance_0_iff [of pbs] by auto
  have lt: "consistency pbs < 1 / 200 \<longleftrightarrow> variance pbs < 1 / 40000"
  proof -
    have s200: "sqrt ((1 / 200)\<^sup>2) = 1 / 200"
      by simp
    have q: "((1 / 200)\<^sup>2 :: real) = 1 / 40000"
      by (simp add: power2_eq_square)
    have "consistency pbs < 1 / 200 \<longleftrightarrow> sqrt (variance pbs) < sqrt ((1 / 200)\<^sup>2)"
      by (simp only: consistency_def s200)
    also have "\<dots> \<longleftrightarrow> variance pbs < (1 / 200)\<^sup>2"
      by (rule real_sqrt_less_iff)
    finally show ?thesis
      by (simp only: q)
  qed
  have t: "st_consistency (buildStats playerName pbs allGames) = 0 \<longleftrightarrow> consistency pbs < 1 / 200"
    unfolding st r lt ..
  have i: "(\<forall>s \<in> set (scores pbs). s \<in> \<int>) \<and> length (scores pbs) \<le> 39998 \<longrightarrow>
      (st_consistency (buildStats playerName pbs allGames) = 0 \<longleftrightarrow> allEqual (scores pbs))"
  proof (intro impI iffI)
    assume h: "(\<forall>s \<in> set (scores pbs). s \<in> \<int>) \<and> length (scores pbs) \<le> 39998"
      and z: "st_consistency (buildStats playerName pbs allGames) = 0"
    show "allEqual (scores pbs)"
    proof (rule ccontr)
      assume ne: "\<not> allEqual (scores pbs)"
      have two: "2 \<le> real (length (scores pbs))"
        using not_allEqual_two [OF ne] by simp
      have "1 / 40000 \<le> (real (length (scores pbs)) - 1) / (real (length (scores pbs)))\<^sup>2"
        using two h by (intro few_scores_bound) simp_all
      also have "\<dots> \<le> variance pbs"
        using h ne by (intro variance_lower) simp_all
      finally show False
        using z unfolding st r by simp
    qed
  next
    assume "allEqual (scores pbs)"
    then show "st_consistency (buildStats playerName pbs allGames) = 0"
      using a by simp
  qed
  show ?thesis
    using a c0 t i by blast
qed

theorem consistency_zero_witness:
  "st_avgScore (buildStats ''Ann'' pairSample []) = 3 \<and>
   st_consistency (buildStats ''Ann'' pairSample []) = 1 \<and> \<not> allEqual (scores pairSample) \<and>
   st_consistency (buildStats ''Ann'' [exBowl ''g1'' ''Ann'' 1 4 1] []) = 0"
proof -
  have e: "\<not> allEqual (scores pairSample)"
    by (simp add: pair_scores allEqual_def)
  have c: "st_consistency (buildStats ''Ann'' pairSample []) = 1"
    using round2_int [of 1] by (simp add: buildStats_def consistency_def pair_variance)
  have v: "st_avgScore (buildStats ''Ann'' pairSample []) = 3"
    using round2_int [of 3]
    by (simp add: buildStats_def avgScore_def meanScore_def scoredBowls_def pairSample_def exBowl_def sumScore_def)
  have s: "allEqual (scores [exBowl ''g1'' ''Ann'' 1 4 1])"
    by (simp add: scores_def scoredBowls_def allEqual_def)
  have o: "st_consistency (buildStats ''Ann'' [exBowl ''g1'' ''Ann'' 1 4 1] []) = 0"
    using consistency_zero [of "[exBowl ''g1'' ''Ann'' 1 4 1]" "''Ann''" "[]"] s by blast
  show ?thesis
    using e c v o by blast
qed


end
